theory Spec2Isabelle
  imports Main "HOL-Library.Word"
begin

section \<open>Memory, events and the allocator interface\<close>

text \<open>
  Addresses are natural numbers; \<open>nullptr\<close> is address 0. \<open>size_t\<close> is a machine word
  \<open>'w word\<close> of the platform's width, so that \<open>*\<close> wraps as the C++ unsigned
  multiplication does.
\<close>

type_synonym addr = nat

abbreviation (input) nullptr :: addr where
  "nullptr \<equiv> 0"

text \<open>
  What the library does to the outside world is recorded as a trace: calls of the
  allocator's virtual functions (with allocator address, arguments and result), and
  constructor and destructor invocations on an address.
\<close>

datatype 's event =
    is_Allocate: Allocate addr 's 's addr
  | is_Deallocate: Deallocate addr addr
  | is_Construct: Construct addr
  | is_Destroy: Destroy addr

text \<open>
  \<open>IAllocator\<close> (allocator.h): two pure virtual functions. An implementation is a pair
  of functions over the allocator-side state \<open>'h\<close>.
\<close>

record ('s, 'h) IAllocator =
  allocate :: "'s \<Rightarrow> 's \<Rightarrow> 'h \<Rightarrow> addr \<times> 'h"
  deallocate :: "addr \<Rightarrow> 'h \<Rightarrow> 'h"

text \<open>
  A smart pointer object lives either in a variable of the caller or in the temporary that
  \<open>operator=\<close> creates. Member functions receive references, which may alias.
\<close>

datatype ref = Named nat | Temporary

text \<open>
  The program state: allocator-side state, the objects constructed in place (by address),
  the trace, and the smart pointer objects (of type \<open>'p\<close>) by reference.
\<close>

record ('s, 'h, 'v, 'p) world =
  heap :: 'h
  objects :: "addr \<rightharpoonup> 'v"
  trace :: "'s event list"
  ptrs :: "ref \<Rightarrow> 'p"

text \<open>
  A virtual call \<open>allocator->allocate(size, alignment)\<close> resp.
  \<open>allocator->deallocate(ptr)\<close> on a non-null allocator: \<open>vt\<close> resolves the allocator's
  address to its implementation.
\<close>

definition call_allocate ::
  "(addr \<Rightarrow> ('s, 'h) IAllocator) \<Rightarrow> addr \<Rightarrow> 's \<Rightarrow> 's \<Rightarrow> ('s, 'h, 'v, 'p) world
     \<Rightarrow> addr \<times> ('s, 'h, 'v, 'p) world" where
  "call_allocate vt a sz alignment w =
     (let (p, h) = allocate (vt a) sz alignment (heap w)
      in (p, w\<lparr>heap := h, trace := trace w @ [Allocate a sz alignment p]\<rparr>))"

definition call_deallocate ::
  "(addr \<Rightarrow> ('s, 'h) IAllocator) \<Rightarrow> addr \<Rightarrow> addr \<Rightarrow> ('s, 'h, 'v, 'p) world
     \<Rightarrow> ('s, 'h, 'v, 'p) world" where
  "call_deallocate vt a p w =
     w\<lparr>heap := deallocate (vt a) p (heap w), trace := trace w @ [Deallocate a p]\<rparr>"

text \<open>Placement new of one object, and \<open>std::destroy_at\<close>.\<close>

definition construct_at :: "addr \<Rightarrow> 'v \<Rightarrow> ('s, 'h, 'v, 'p) world \<Rightarrow> ('s, 'h, 'v, 'p) world" where
  "construct_at p v w = w\<lparr>objects := (objects w)(p \<mapsto> v), trace := trace w @ [Construct p]\<rparr>"

definition destroy_at :: "addr \<Rightarrow> ('s, 'h, 'v, 'p) world \<Rightarrow> ('s, 'h, 'v, 'p) world" where
  "destroy_at p w = w\<lparr>objects := (objects w)(p := None), trace := trace w @ [Destroy p]\<rparr>"

text \<open>
  \<open>new (memory) T[length]()\<close> value-initialises \<open>length\<close> elements, one after the other,
  \<open>sizeof(T)\<close> bytes apart; \<open>std::destroy(first, last)\<close> is the loop
  \<open>for (; first != last; ++first) destroy_at(first)\<close>. Both are given the element count.
\<close>

fun construct_n :: "addr \<Rightarrow> nat \<Rightarrow> nat \<Rightarrow> 'v \<Rightarrow> ('s, 'h, 'v, 'p) world \<Rightarrow> ('s, 'h, 'v, 'p) world" where
  "construct_n p stride 0 v w = w"
| "construct_n p stride (Suc n) v w = construct_n (p + stride) stride n v (construct_at p v w)"

fun destroy :: "addr \<Rightarrow> nat \<Rightarrow> nat \<Rightarrow> ('s, 'h, 'v, 'p) world \<Rightarrow> ('s, 'h, 'v, 'p) world" where
  "destroy first stride 0 w = w"
| "destroy first stride (Suc n) w = destroy (first + stride) stride n (destroy_at first w)"

text \<open>\<open>sizeof(T)\<close> and \<open>alignof(T)\<close> of the element type \<open>T\<close>.\<close>

record 's type_info =
  sizeof :: 's
  alignof :: 's

text \<open>
  Failures: \<open>assert\<close> aborts in a debug build and is compiled out under \<open>NDEBUG\<close>;
  going through a null pointer is undefined behaviour.
\<close>

datatype error = AssertionFailed | UndefinedBehaviour

datatype build = Debug | Release

definition assert :: "build \<Rightarrow> bool \<Rightarrow> error + unit" where
  "assert b c = (if b = Debug \<and> \<not> c then Inl AssertionFailed else Inr ())"

section \<open>UniquePtr<T>\<close>

record UniquePtr =
  m_allocator :: addr
  m_ptr :: addr
  m_allocated_memory :: addr

text \<open>\<open>UniquePtr()\<close> and \<open>UniquePtr(nullptr_t)\<close>.\<close>

definition UniquePtr_default :: UniquePtr where
  "UniquePtr_default = \<lparr>m_allocator = nullptr, m_ptr = nullptr, m_allocated_memory = nullptr\<rparr>"

definition UniquePtr_nullptr :: UniquePtr where
  "UniquePtr_nullptr = UniquePtr_default"

text \<open>\<open>UniquePtr(IAllocator* allocator, pointer p, void* allocated_memory)\<close>.\<close>

definition UniquePtr_init :: "addr \<Rightarrow> addr \<Rightarrow> addr \<Rightarrow> UniquePtr" where
  "UniquePtr_init allocator p allocated_memory =
     \<lparr>m_allocator = allocator, m_ptr = p, m_allocated_memory = allocated_memory\<rparr>"

text \<open>
  \<open>std::swap(x.f, y.f)\<close> on one field of two smart pointer objects given by reference:
  \<open>tmp = x.f; x.f = y.f; y.f = tmp\<close>, each step on the store, so that \<open>x\<close> and \<open>y\<close>
  may be the same object.
\<close>

definition std_swap ::
  "('p \<Rightarrow> 'f) \<Rightarrow> ('f \<Rightarrow> 'p \<Rightarrow> 'p) \<Rightarrow> ref \<Rightarrow> ref \<Rightarrow> (ref \<Rightarrow> 'p) \<Rightarrow> (ref \<Rightarrow> 'p)" where
  "std_swap rd wr x y s =
     (let tmp = rd (s x);
          s1 = s(x := wr (rd (s y)) (s x));
          s2 = s1(y := wr tmp (s1 y))
      in s2)"

text \<open>\<open>UniquePtr<T>::swap(UniquePtr& other)\<close>.\<close>

definition swap_member ::
  "ref \<Rightarrow> ref \<Rightarrow> ('s, 'h, 'v, UniquePtr) world \<Rightarrow> ('s, 'h, 'v, UniquePtr) world" where
  "swap_member this other w =
     (let s1 = std_swap m_allocator (\<lambda>v. m_allocator_update (\<lambda>_. v)) this other (ptrs w);
          s2 = std_swap m_ptr (\<lambda>v. m_ptr_update (\<lambda>_. v)) this other s1;
          s3 = std_swap m_allocated_memory (\<lambda>v. m_allocated_memory_update (\<lambda>_. v)) this other s2
      in w\<lparr>ptrs := s3\<rparr>)"

text \<open>The free function \<open>swap(UniquePtr<T>& lhs, UniquePtr<T>& rhs)\<close>.\<close>

definition swap ::
  "ref \<Rightarrow> ref \<Rightarrow> ('s, 'h, 'v, UniquePtr) world \<Rightarrow> ('s, 'h, 'v, UniquePtr) world" where
  "swap lhs rhs w = swap_member lhs rhs w"

text \<open>
  The move constructor \<open>UniquePtr(UniquePtr&& other)\<close>: the object under construction
  (\<open>this\<close>) starts as three nulls and swaps with \<open>other\<close>.
\<close>

definition UniquePtr_move ::
  "ref \<Rightarrow> ref \<Rightarrow> ('s, 'h, 'v, UniquePtr) world \<Rightarrow> ('s, 'h, 'v, UniquePtr) world" where
  "UniquePtr_move this other w =
     swap_member this other
       (w\<lparr>ptrs := (ptrs w)(this :=
           \<lparr>m_allocator = nullptr, m_ptr = nullptr, m_allocated_memory = nullptr\<rparr>)\<rparr>)"

text \<open>The destructor \<open>~UniquePtr()\<close>.\<close>

definition UniquePtr_dtor ::
  "(addr \<Rightarrow> ('s, 'h) IAllocator) \<Rightarrow> ref \<Rightarrow> ('s, 'h, 'v, UniquePtr) world
     \<Rightarrow> ('s, 'h, 'v, UniquePtr) world" where
  "UniquePtr_dtor vt this w =
     (let u = ptrs w this
      in if m_ptr u \<noteq> nullptr \<and> m_allocator u \<noteq> nullptr
         then call_deallocate vt (m_allocator u) (m_allocated_memory u) (destroy_at (m_ptr u) w)
         else w)"

text \<open>
  \<open>operator*\<close> returns a reference to the object (its address), after \<open>assert(m_ptr)\<close>;
  \<open>operator->\<close> and \<open>get\<close> return \<open>m_ptr\<close>; \<open>operator bool\<close> is \<open>!!m_ptr\<close>.
\<close>

definition operator_star :: "build \<Rightarrow> 'a UniquePtr_scheme \<Rightarrow> error + addr" where
  "operator_star b u =
     (case assert b (m_ptr u \<noteq> nullptr) of
        Inl e \<Rightarrow> Inl e
      | Inr _ \<Rightarrow> if m_ptr u = nullptr then Inl UndefinedBehaviour else Inr (m_ptr u))"

definition operator_arrow :: "build \<Rightarrow> 'a UniquePtr_scheme \<Rightarrow> error + addr" where
  "operator_arrow b u = Inr (m_ptr u)"

definition get :: "'a UniquePtr_scheme \<Rightarrow> addr" where
  "get u = m_ptr u"

definition operator_bool :: "'a UniquePtr_scheme \<Rightarrow> bool" where
  "operator_bool u = (\<not> \<not> (m_ptr u \<noteq> nullptr))"

text \<open>
  Move assignment \<open>UniquePtr(std::move(other)).swap(*this); return *this;\<close>: the
  temporary is move-constructed from \<open>other\<close>, swapped with \<open>*this\<close>, and destroyed at
  the end of the full expression.
\<close>

definition operator_assign ::
  "(addr \<Rightarrow> ('s, 'h) IAllocator) \<Rightarrow> ref \<Rightarrow> ref \<Rightarrow> ('s, 'h, 'v, UniquePtr) world
     \<Rightarrow> ('s, 'h, 'v, UniquePtr) world" where
  "operator_assign vt this other w =
     (let w1 = UniquePtr_move Temporary other w;
          w2 = swap_member Temporary this w1
      in UniquePtr_dtor vt Temporary w2)"

section \<open>UniquePtr<T[]>\<close>

record 's UniquePtrArr = UniquePtr +
  m_length :: 's

text \<open>\<open>UniquePtr()\<close>, \<open>UniquePtr(nullptr_t)\<close> and the four-argument constructor.\<close>

definition UniquePtrArr_default :: "'w::len word UniquePtrArr" where
  "UniquePtrArr_default =
     \<lparr>m_allocator = nullptr, m_ptr = nullptr, m_allocated_memory = nullptr, m_length = 0\<rparr>"

definition UniquePtrArr_nullptr :: "'w::len word UniquePtrArr" where
  "UniquePtrArr_nullptr = UniquePtrArr_default"

definition UniquePtrArr_init :: "addr \<Rightarrow> addr \<Rightarrow> addr \<Rightarrow> 's \<Rightarrow> 's UniquePtrArr" where
  "UniquePtrArr_init allocator p allocated_memory len =
     \<lparr>m_allocator = allocator, m_ptr = p, m_allocated_memory = allocated_memory, m_length = len\<rparr>"

text \<open>
  The move constructor of the array version copies the four fields and then resets those
  of \<open>other\<close>, one assignment after the other.
\<close>

definition UniquePtrArr_move ::
  "ref \<Rightarrow> ref \<Rightarrow> ('s, 'h, 'v, 'w::len word UniquePtrArr) world
     \<Rightarrow> ('s, 'h, 'v, 'w word UniquePtrArr) world" where
  "UniquePtrArr_move this other w =
     (let s0 = ptrs w;
          s1 = s0(this := \<lparr>m_allocator = m_allocator (s0 other), m_ptr = m_ptr (s0 other),
                           m_allocated_memory = m_allocated_memory (s0 other),
                           m_length = m_length (s0 other)\<rparr>);
          s2 = s1(other := (s1 other)\<lparr>m_allocator := nullptr\<rparr>);
          s3 = s2(other := (s2 other)\<lparr>m_ptr := nullptr\<rparr>);
          s4 = s3(other := (s3 other)\<lparr>m_allocated_memory := nullptr\<rparr>);
          s5 = s4(other := (s4 other)\<lparr>m_length := 0\<rparr>)
      in w\<lparr>ptrs := s5\<rparr>)"

text \<open>\<open>UniquePtr<T[]>::swap(UniquePtr& other)\<close>.\<close>

definition swap_arr ::
  "ref \<Rightarrow> ref \<Rightarrow> ('s, 'h, 'v, 'l UniquePtrArr) world \<Rightarrow> ('s, 'h, 'v, 'l UniquePtrArr) world" where
  "swap_arr this other w =
     (let s1 = std_swap m_allocator (\<lambda>v. m_allocator_update (\<lambda>_. v)) this other (ptrs w);
          s2 = std_swap m_ptr (\<lambda>v. m_ptr_update (\<lambda>_. v)) this other s1;
          s3 = std_swap m_allocated_memory (\<lambda>v. m_allocated_memory_update (\<lambda>_. v)) this other s2;
          s4 = std_swap m_length (\<lambda>v. m_length_update (\<lambda>_. v)) this other s3
      in w\<lparr>ptrs := s4\<rparr>)"

text \<open>
  The destructor of the array version:
  \<open>std::destroy(m_ptr, m_ptr + m_length); m_allocator->deallocate(m_allocated_memory);\<close>
  under the guard \<open>m_ptr && m_allocator\<close>. \<open>T\<close> gives the element size.
\<close>

definition UniquePtrArr_dtor ::
  "(addr \<Rightarrow> ('s, 'h) IAllocator) \<Rightarrow> 'w::len word type_info \<Rightarrow> ref
     \<Rightarrow> ('s, 'h, 'v, 'w word UniquePtrArr) world \<Rightarrow> ('s, 'h, 'v, 'w word UniquePtrArr) world" where
  "UniquePtrArr_dtor vt T this w =
     (let u = ptrs w this
      in if m_ptr u \<noteq> nullptr \<and> m_allocator u \<noteq> nullptr
         then call_deallocate vt (m_allocator u) (m_allocated_memory u)
                (destroy (m_ptr u) (unat (sizeof T)) (unat (m_length u)) w)
         else w)"

text \<open>Move assignment of the array version, as for the scalar one.\<close>

definition operator_assign_arr ::
  "(addr \<Rightarrow> ('s, 'h) IAllocator) \<Rightarrow> 'w::len word type_info \<Rightarrow> ref \<Rightarrow> ref
     \<Rightarrow> ('s, 'h, 'v, 'w word UniquePtrArr) world \<Rightarrow> ('s, 'h, 'v, 'w word UniquePtrArr) world" where
  "operator_assign_arr vt T this other w =
     (let w1 = UniquePtrArr_move Temporary other w;
          w2 = swap_arr Temporary this w1
      in UniquePtrArr_dtor vt T Temporary w2)"

text \<open>
  \<open>operator[]\<close>: \<open>assert(m_ptr); assert(index < m_length); return m_ptr[index];\<close>,
  and \<open>length()\<close>.
\<close>

definition operator_index ::
  "build \<Rightarrow> 'w::len word type_info \<Rightarrow> 'w word UniquePtrArr \<Rightarrow> 'w word \<Rightarrow> error + addr" where
  "operator_index b T u index =
     (case assert b (m_ptr u \<noteq> nullptr) of
        Inl e \<Rightarrow> Inl e
      | Inr _ \<Rightarrow>
          (case assert b (index < m_length u) of
             Inl e \<Rightarrow> Inl e
           | Inr _ \<Rightarrow>
               if m_ptr u = nullptr \<or> \<not> index < m_length u then Inl UndefinedBehaviour
               else Inr (m_ptr u + unat index * unat (sizeof T))))"

definition length_arr :: "'s UniquePtrArr \<Rightarrow> 's" where
  "length_arr u = m_length u"

section \<open>make_unique\<close>

text \<open>
  The single-object version. \<open>ctor\<close> is the constructor of \<open>T\<close> selected by the
  arguments; the object is constructed at the start of the allocated block.
\<close>

definition make_unique ::
  "(addr \<Rightarrow> ('s, 'h) IAllocator) \<Rightarrow> 's type_info \<Rightarrow> ('args \<Rightarrow> 'v) \<Rightarrow> addr \<Rightarrow> 'args
     \<Rightarrow> ('s, 'h, 'v, 'p) world \<Rightarrow> UniquePtr \<times> ('s, 'h, 'v, 'p) world" where
  "make_unique vt T ctor allocator args w =
     (if allocator = nullptr then (UniquePtr_default, w)
      else
        let (memory, w1) = call_allocate vt allocator (sizeof T) (alignof T) w
        in if memory = nullptr then (UniquePtr_default, w1)
           else
             let object = memory;
                 w2 = construct_at object (ctor args) w1
             in (UniquePtr_init allocator object memory, w2))"

text \<open>
  The array version. \<open>sizeof(T) * length\<close> is a \<open>size_t\<close> product. The array placement
  new value-initialises \<open>length\<close> elements (\<open>dflt\<close> is the value-initialised \<open>T\<close>) and
  returns the start of the block.
\<close>

definition make_unique_arr ::
  "(addr \<Rightarrow> ('w::len word, 'h) IAllocator) \<Rightarrow> 'w word type_info \<Rightarrow> 'v \<Rightarrow> addr \<Rightarrow> 'w word
     \<Rightarrow> ('w word, 'h, 'v, 'p) world \<Rightarrow> 'w word UniquePtrArr \<times> ('w word, 'h, 'v, 'p) world" where
  "make_unique_arr vt T dflt allocator len w =
     (if allocator = nullptr then (UniquePtrArr_default, w)
      else
        let (memory, w1) = call_allocate vt allocator (sizeof T * len) (alignof T) w
        in if memory = nullptr then (UniquePtrArr_default, w1)
           else
             let ptr = memory;
                 w2 = construct_n ptr (unat (sizeof T)) (unat len) dflt w1
             in (UniquePtrArr_init allocator ptr memory len, w2))"

section \<open>StlAllocator<T>\<close>

text \<open>
  An adapter holds the allocator pointer; its element type \<open>T\<close> (a template parameter)
  is kept as \<open>value_type\<close>. The datatype constructor is \<open>StlAllocator(IAllocator*)\<close>,
  \<open>get_allocator\<close> reads \<open>m_allocator\<close>.
\<close>

datatype 's StlAllocator = StlAllocator (value_type: "'s type_info") (get_allocator: addr)

text \<open>The converting constructor \<open>StlAllocator(const StlAllocator<U>& other)\<close> of \<open>StlAllocator<T>\<close>.\<close>

definition StlAllocator_rebind :: "'s type_info \<Rightarrow> 's StlAllocator \<Rightarrow> 's StlAllocator" where
  "StlAllocator_rebind T other = StlAllocator T (get_allocator other)"

text \<open>
  \<open>allocate(n)\<close> and \<open>deallocate(p, n)\<close>. The adapter does not check its allocator pointer:
  a call through a null one is undefined behaviour.
\<close>

definition StlAllocator_allocate ::
  "(addr \<Rightarrow> ('w::len word, 'h) IAllocator) \<Rightarrow> 'w word StlAllocator \<Rightarrow> 'w word
     \<Rightarrow> ('w word, 'h, 'v, 'p) world \<Rightarrow> error + addr \<times> ('w word, 'h, 'v, 'p) world" where
  "StlAllocator_allocate vt this n w =
     (if n = 0 then Inr (nullptr, w)
      else if get_allocator this = nullptr then Inl UndefinedBehaviour
      else Inr (call_allocate vt (get_allocator this)
                  (n * sizeof (value_type this)) (alignof (value_type this)) w))"

definition StlAllocator_deallocate ::
  "(addr \<Rightarrow> ('s, 'h) IAllocator) \<Rightarrow> 's StlAllocator \<Rightarrow> addr \<Rightarrow> 's
     \<Rightarrow> ('s, 'h, 'v, 'p) world \<Rightarrow> error + ('s, 'h, 'v, 'p) world" where
  "StlAllocator_deallocate vt this p n w =
     (if p \<noteq> nullptr
      then if get_allocator this = nullptr then Inl UndefinedBehaviour
           else Inr (call_deallocate vt (get_allocator this) p w)
      else Inr w)"

definition operator_eq :: "'s StlAllocator \<Rightarrow> 's StlAllocator \<Rightarrow> bool" where
  "operator_eq this other = (get_allocator this = get_allocator other)"

definition operator_ne :: "'s StlAllocator \<Rightarrow> 's StlAllocator \<Rightarrow> bool" where
  "operator_ne this other = (\<not> operator_eq this other)"

section \<open>Clients of the array pointer\<close>

text \<open>
  What a caller can do with array pointers held in its variables: declare one (default
  or from \<open>nullptr\<close>), initialise one from \<open>make_unique<T[]>\<close>, move-construct a new
  one from another, move-assign and swap. Move-constructing a variable from itself reads
  the fields of an object that is not yet initialised.
\<close>

datatype 'l op =
    DefaultCtor nat
  | NullptrCtor nat
  | MakeUnique nat addr 'l
  | MoveCtor nat nat
  | MoveAssign nat nat
  | Swap nat nat

fun exec ::
  "(addr \<Rightarrow> ('w::len word, 'h) IAllocator) \<Rightarrow> 'w word type_info \<Rightarrow> 'v \<Rightarrow> 'w word op
     \<Rightarrow> ('w word, 'h, 'v, 'w word UniquePtrArr) world
     \<Rightarrow> error + ('w word, 'h, 'v, 'w word UniquePtrArr) world" where
  "exec vt T dflt (DefaultCtor a) w = Inr (w\<lparr>ptrs := (ptrs w)(Named a := UniquePtrArr_default)\<rparr>)"
| "exec vt T dflt (NullptrCtor a) w = Inr (w\<lparr>ptrs := (ptrs w)(Named a := UniquePtrArr_nullptr)\<rparr>)"
| "exec vt T dflt (MakeUnique a allocator len) w =
     (let (u, w1) = make_unique_arr vt T dflt allocator len w
      in Inr (w1\<lparr>ptrs := (ptrs w1)(Named a := u)\<rparr>))"
| "exec vt T dflt (MoveCtor a b) w =
     (if a = b then Inl UndefinedBehaviour else Inr (UniquePtrArr_move (Named a) (Named b) w))"
| "exec vt T dflt (MoveAssign a b) w = Inr (operator_assign_arr vt T (Named a) (Named b) w)"
| "exec vt T dflt (Swap a b) w = Inr (swap_arr (Named a) (Named b) w)"

fun run ::
  "(addr \<Rightarrow> ('w::len word, 'h) IAllocator) \<Rightarrow> 'w word type_info \<Rightarrow> 'v \<Rightarrow> 'w word op list
     \<Rightarrow> ('w word, 'h, 'v, 'w word UniquePtrArr) world
     \<Rightarrow> error + ('w word, 'h, 'v, 'w word UniquePtrArr) world" where
  "run vt T dflt [] w = Inr w"
| "run vt T dflt (c # cs) w =
     (case exec vt T dflt c w of Inl e \<Rightarrow> Inl e | Inr w' \<Rightarrow> run vt T dflt cs w')"

text \<open>The state before the client has done anything: every variable is an empty pointer.\<close>

definition initial :: "'h \<Rightarrow> ('s, 'h, 'v, 'w::len word UniquePtrArr) world" where
  "initial h = \<lparr>heap = h, objects = Map.empty, trace = [], ptrs = (\<lambda>_. UniquePtrArr_default)\<rparr>"

definition initial_scalar :: "'h \<Rightarrow> ('s, 'h, 'v, UniquePtr) world" where
  "initial_scalar h = \<lparr>heap = h, objects = Map.empty, trace = [], ptrs = (\<lambda>_. UniquePtr_default)\<rparr>"

text \<open>
  The fields of an array pointer that are null together: the pointer, the allocation and
  the allocator are all null or all non-null, and a null pointer has length 0.
\<close>

definition null_together :: "'w::len word UniquePtrArr \<Rightarrow> bool" where
  "null_together u =
     ((m_ptr u = nullptr) = (m_allocated_memory u = nullptr)
      \<and> (m_ptr u = nullptr) = (m_allocator u = nullptr)
      \<and> (m_ptr u = nullptr \<longrightarrow> m_length u = 0))"

section \<open>The allocator of the tests\<close>

text \<open>
  \<open>DummyAllocator\<close> (stl_allocator_test.cpp) keeps the addresses it has handed out in
  \<open>allocations\<close>, takes memory from \<open>std::malloc\<close> and frees only what it finds in
  \<open>allocations\<close>. \<open>std::malloc\<close> is the platform's: here it returns a fresh block
  address, a multiple of 4096, for every request, a zero-byte one included (as glibc does),
  and \<open>served\<close> counts its calls.
\<close>

record DummyAllocator_state =
  allocations :: "addr list"
  served :: nat

definition DummyAllocator :: "('s, DummyAllocator_state) IAllocator" where
  "DummyAllocator =
     \<lparr>allocate = (\<lambda>sz alignment st.
         let ptr = 4096 * (served st + 1)
         in (ptr, st\<lparr>allocations := allocations st @ [ptr], served := served st + 1\<rparr>)),
      deallocate = (\<lambda>ptr st.
         if ptr \<in> set (allocations st)
         then st\<lparr>allocations := remove1 ptr (allocations st)\<rparr>
         else st)\<rparr>"

definition no_allocations :: DummyAllocator_state where
  "no_allocations = \<lparr>allocations = [], served = 0\<rparr>"

text \<open>An allocator that is out of memory: every request fails.\<close>

definition ExhaustedAllocator :: "('s, 'h) IAllocator" where
  "ExhaustedAllocator = \<lparr>allocate = (\<lambda>sz alignment st. (nullptr, st)), deallocate = (\<lambda>ptr st. st)\<rparr>"

section \<open>The objects of the tests\<close>

text \<open>
  \<open>TestClass\<close> (unique_ptr_test.cpp) holds one \<open>int\<close>; its value stands for the object.
  \<open>two_pointers\<close> is the state of the swap and move tests after
  \<open>ptr1 = make_unique<TestClass>(&allocator, 42)\<close> and
  \<open>ptr2 = make_unique<TestClass>(&allocator, 24)\<close>, with the allocator object at
  address 100 and the variables \<open>Named 1\<close> and \<open>Named 2\<close>; \<open>Named 0\<close> is an empty pointer.
\<close>

definition TestClass :: "64 word type_info" where
  "TestClass = \<lparr>sizeof = 4, alignof = 4\<rparr>"

definition test_allocators :: "addr \<Rightarrow> (64 word, DummyAllocator_state) IAllocator" where
  "test_allocators = (\<lambda>_. DummyAllocator)"

definition two_pointers :: "(64 word, DummyAllocator_state, int, UniquePtr) world" where
  "two_pointers =
     (let (ptr1, w1) = make_unique test_allocators TestClass id 100 42 (initial_scalar no_allocations);
          (ptr2, w2) = make_unique test_allocators TestClass id 100 24 w1
      in w2\<lparr>ptrs := (ptrs w2)(Named 1 := ptr1, Named 2 := ptr2)\<rparr>)"

text \<open>
  \<open>DestructorTracker\<close> is an empty class that counts its destructor calls;
  \<open>four_trackers\<close> is the state of the array destructor test after
  \<open>arr = make_unique<DestructorTracker[]>(&allocator, 4)\<close>, with \<open>arr\<close> as \<open>Named 0\<close>.
\<close>

definition DestructorTracker :: "64 word type_info" where
  "DestructorTracker = \<lparr>sizeof = 1, alignof = 1\<rparr>"

definition four_trackers :: "(64 word, DummyAllocator_state, unit, 64 word UniquePtrArr) world" where
  "four_trackers =
     (let (arr, w1) = make_unique_arr test_allocators DestructorTracker () 100 4 (initial no_allocations)
      in w1\<lparr>ptrs := (ptrs w1)(Named 0 := arr)\<rparr>)"

definition exhausted_allocators :: "addr \<Rightarrow> (64 word, DummyAllocator_state) IAllocator" where
  "exhausted_allocators = (\<lambda>_. ExhaustedAllocator)"

section \<open>Swap and move of the single-object pointer\<close>

lemma two_pointers_eq:
  "two_pointers =
     \<lparr>heap = \<lparr>allocations = [4096, 8192], served = 2\<rparr>,
      objects = [4096 \<mapsto> 42, 8192 \<mapsto> 24],
      trace = [Allocate 100 4 4 4096, Construct 4096, Allocate 100 4 4 8192, Construct 8192],
      ptrs = (\<lambda>_. UniquePtr_default)
        (Named 1 := UniquePtr_init 100 4096 4096, Named 2 := UniquePtr_init 100 8192 8192)\<rparr>"
  by (simp add: two_pointers_def make_unique_def call_allocate_def construct_at_def
      test_allocators_def DummyAllocator_def initial_scalar_def no_allocations_def
      TestClass_def Let_def)

lemma swap_member_ptrs:
  "ptrs (swap_member a b w) = (ptrs w)(a := ptrs w b, b := ptrs w a)"
proof (cases "a = b")
  case True
  then show ?thesis by (simp add: swap_member_def std_swap_def Let_def)
next
  case False
  then show ?thesis by (auto simp: swap_member_def std_swap_def Let_def fun_eq_iff)
qed

lemma swap_member_rest:
  "heap (swap_member a b w) = heap w" "objects (swap_member a b w) = objects w"
  "trace (swap_member a b w) = trace w"
  by (simp_all add: swap_member_def Let_def)

text \<open>
  C6: \<open>swap\<close> (member or free function) exchanges the full states of two single-object
  pointers and touches nothing else: each ends with the allocator, object pointer and
  allocation the other had. Two non-empty pointers are both non-empty afterwards; a
  non-empty and an empty one end as one empty and one non-empty pointer, which holds the
  object.
\<close>

theorem swap_exchanges_states:
  fixes w :: "('s, 'h, 'v, UniquePtr) world"
  shows "ptrs (swap_member a b w) a = ptrs w b \<and> ptrs (swap_member a b w) b = ptrs w a
    \<and> (\<forall>r. r \<noteq> a \<and> r \<noteq> b \<longrightarrow> ptrs (swap_member a b w) r = ptrs w r)
    \<and> heap (swap_member a b w) = heap w \<and> objects (swap_member a b w) = objects w
    \<and> trace (swap_member a b w) = trace w
    \<and> swap a b w = swap_member a b w
    \<and> (operator_bool (ptrs w a) \<and> operator_bool (ptrs w b) \<longrightarrow>
         operator_bool (ptrs (swap_member a b w) a) \<and> operator_bool (ptrs (swap_member a b w) b))
    \<and> (operator_bool (ptrs w a) \<and> \<not> operator_bool (ptrs w b) \<longrightarrow>
         \<not> operator_bool (ptrs (swap_member a b w) a) \<and> operator_bool (ptrs (swap_member a b w) b)
         \<and> get (ptrs (swap_member a b w) b) = get (ptrs w a))"
  by (simp add: swap_member_ptrs swap_member_rest swap_def)

theorem swap_exchanges_states_witness:
  "operator_bool (ptrs two_pointers (Named 1)) \<and> operator_bool (ptrs two_pointers (Named 2))
   \<and> \<not> operator_bool (ptrs two_pointers (Named 0))
   \<and> get (ptrs (swap_member (Named 1) (Named 2) two_pointers) (Named 1)) = 8192
   \<and> get (ptrs (swap_member (Named 1) (Named 2) two_pointers) (Named 2)) = 4096
   \<and> ptrs (swap_member (Named 1) (Named 2) two_pointers) (Named 0) = ptrs two_pointers (Named 0)
   \<and> \<not> operator_bool (ptrs (swap_member (Named 1) (Named 0) two_pointers) (Named 1))
   \<and> get (ptrs (swap_member (Named 1) (Named 0) two_pointers) (Named 0)) = 4096"
  using swap_exchanges_states [of "Named 1" "Named 2" two_pointers]
    swap_exchanges_states [of "Named 1" "Named 0" two_pointers]
  by (simp add: two_pointers_eq operator_bool_def get_def UniquePtr_init_def UniquePtr_default_def)

lemma UniquePtr_move_ptrs:
  "this \<noteq> other \<Longrightarrow>
   ptrs (UniquePtr_move this other w) = (ptrs w)(this := ptrs w other, other := UniquePtr_default)"
  by (auto simp: UniquePtr_move_def swap_member_ptrs UniquePtr_default_def fun_eq_iff)

lemma UniquePtr_move_rest:
  "heap (UniquePtr_move a b w) = heap w" "objects (UniquePtr_move a b w) = objects w"
  "trace (UniquePtr_move a b w) = trace w"
  by (simp_all add: UniquePtr_move_def swap_member_rest)

lemma UniquePtr_dtor_ptrs: "ptrs (UniquePtr_dtor vt r w) = ptrs w"
  by (simp add: UniquePtr_dtor_def Let_def call_deallocate_def destroy_at_def)

lemma UniquePtr_dtor_owning:
  assumes "m_ptr (ptrs w r) \<noteq> nullptr" and "m_allocator (ptrs w r) \<noteq> nullptr"
  shows "UniquePtr_dtor vt r w =
     w\<lparr>heap := deallocate (vt (m_allocator (ptrs w r))) (m_allocated_memory (ptrs w r)) (heap w),
       objects := (objects w)(m_ptr (ptrs w r) := None),
       trace := trace w @ [Destroy (m_ptr (ptrs w r)),
                           Deallocate (m_allocator (ptrs w r)) (m_allocated_memory (ptrs w r))]\<rparr>"
  using assms by (simp add: UniquePtr_dtor_def Let_def call_deallocate_def destroy_at_def)

lemma UniquePtr_dtor_empty:
  "m_ptr (ptrs w r) = nullptr \<Longrightarrow> UniquePtr_dtor vt r w = w"
  by (simp add: UniquePtr_dtor_def Let_def)

lemma operator_assign_self:
  "operator_assign vt (Named a) (Named a) w = w\<lparr>ptrs := (ptrs w)(Temporary := UniquePtr_default)\<rparr>"
proof -
  have "swap_member Temporary (Named a) (UniquePtr_move Temporary (Named a) w) =
        w\<lparr>ptrs := (ptrs w)(Temporary := UniquePtr_default)\<rparr>"
    by (intro world.equality)
       (auto simp: swap_member_ptrs swap_member_rest UniquePtr_move_ptrs UniquePtr_move_rest
          fun_eq_iff)
  then show ?thesis
    by (simp add: operator_assign_def Let_def UniquePtr_dtor_def UniquePtr_default_def)
qed

lemma operator_assign_other:
  assumes "a \<noteq> b"
  shows "operator_assign vt (Named a) (Named b) w =
     UniquePtr_dtor vt Temporary
       (w\<lparr>ptrs := (ptrs w)(Named b := UniquePtr_default, Named a := ptrs w (Named b),
                    Temporary := ptrs w (Named a))\<rparr>)"
proof -
  have "swap_member Temporary (Named a) (UniquePtr_move Temporary (Named b) w) =
        w\<lparr>ptrs := (ptrs w)(Named b := UniquePtr_default, Named a := ptrs w (Named b),
                    Temporary := ptrs w (Named a))\<rparr>"
    using assms
    by (intro world.equality)
       (auto simp: swap_member_ptrs swap_member_rest UniquePtr_move_ptrs UniquePtr_move_rest
          fun_eq_iff)
  then show ?thesis by (simp add: operator_assign_def Let_def)
qed

text \<open>
  C3: after move construction of a new pointer from a single-object pointer, and after move
  assignment from it to another pointer, the source is empty (boolean check false,
  \<open>get()\<close> null) and the destination holds the source's original allocator, object
  pointer and allocation. Source \<open>Named b\<close> and destination \<open>Named a\<close> are distinct
  objects.
\<close>

theorem move_transfers_triple:
  fixes w :: "('s, 'h, 'v, UniquePtr) world"
  assumes "a \<noteq> b"
  shows "ptrs (UniquePtr_move (Named a) (Named b) w) (Named a) = ptrs w (Named b)
    \<and> \<not> operator_bool (ptrs (UniquePtr_move (Named a) (Named b) w) (Named b))
    \<and> get (ptrs (UniquePtr_move (Named a) (Named b) w) (Named b)) = nullptr
    \<and> ptrs (UniquePtr_move (Named a) (Named b) w) (Named b) = UniquePtr_default
    \<and> ptrs (operator_assign vt (Named a) (Named b) w) (Named a) = ptrs w (Named b)
    \<and> \<not> operator_bool (ptrs (operator_assign vt (Named a) (Named b) w) (Named b))
    \<and> get (ptrs (operator_assign vt (Named a) (Named b) w) (Named b)) = nullptr
    \<and> ptrs (operator_assign vt (Named a) (Named b) w) (Named b) = UniquePtr_default"
  using assms
  by (simp add: UniquePtr_move_ptrs operator_assign_other UniquePtr_dtor_ptrs
      operator_bool_def get_def UniquePtr_default_def)

theorem move_transfers_triple_witness:
  "(0::nat) \<noteq> 1 \<and> operator_bool (ptrs two_pointers (Named 1))
   \<and> ptrs (UniquePtr_move (Named 0) (Named 1) two_pointers) (Named 0) = UniquePtr_init 100 4096 4096
   \<and> \<not> operator_bool (ptrs (UniquePtr_move (Named 0) (Named 1) two_pointers) (Named 1))
   \<and> ptrs (operator_assign test_allocators (Named 2) (Named 1) two_pointers) (Named 2)
       = UniquePtr_init 100 4096 4096
   \<and> get (ptrs (operator_assign test_allocators (Named 2) (Named 1) two_pointers) (Named 1)) = nullptr"
  using move_transfers_triple [of 0 1 two_pointers test_allocators]
    move_transfers_triple [of 2 1 two_pointers test_allocators]
  by (simp add: two_pointers_eq operator_bool_def get_def UniquePtr_init_def
      UniquePtr_default_def UniquePtr_move_ptrs operator_assign_other UniquePtr_dtor_ptrs)

text \<open>
  C5: move assignment of a single-object pointer to itself leaves every variable, the
  objects, the allocator state and the trace as they were. Assigning from a different
  pointer gives the destination the source's state; if the destination owned an object,
  that object is destroyed once and its allocation handed to its allocator's
  \<open>deallocate\<close> once, and nothing else happens; if it was empty, nothing is released.
  \<open>operator_assign\<close> is the temporary, the swap and the temporary's destructor.
\<close>

theorem move_assignment_self_and_release:
  fixes w :: "('s, 'h, 'v, UniquePtr) world"
  shows "(\<forall>r. ptrs (operator_assign vt (Named a) (Named a) w) (Named r) = ptrs w (Named r))
    \<and> heap (operator_assign vt (Named a) (Named a) w) = heap w
    \<and> objects (operator_assign vt (Named a) (Named a) w) = objects w
    \<and> trace (operator_assign vt (Named a) (Named a) w) = trace w
    \<and> (a \<noteq> b \<longrightarrow>
         ptrs (operator_assign vt (Named a) (Named b) w) (Named a) = ptrs w (Named b)
       \<and> (m_ptr (ptrs w (Named a)) \<noteq> nullptr \<and> m_allocator (ptrs w (Named a)) \<noteq> nullptr \<longrightarrow>
            trace (operator_assign vt (Named a) (Named b) w) =
              trace w @ [Destroy (m_ptr (ptrs w (Named a))),
                         Deallocate (m_allocator (ptrs w (Named a)))
                           (m_allocated_memory (ptrs w (Named a)))]
          \<and> objects (operator_assign vt (Named a) (Named b) w) =
              (objects w)(m_ptr (ptrs w (Named a)) := None)
          \<and> heap (operator_assign vt (Named a) (Named b) w) =
              deallocate (vt (m_allocator (ptrs w (Named a))))
                (m_allocated_memory (ptrs w (Named a))) (heap w))
       \<and> (m_ptr (ptrs w (Named a)) = nullptr \<longrightarrow>
            trace (operator_assign vt (Named a) (Named b) w) = trace w
          \<and> objects (operator_assign vt (Named a) (Named b) w) = objects w
          \<and> heap (operator_assign vt (Named a) (Named b) w) = heap w))"
proof -
  have self: "(\<forall>r. ptrs (operator_assign vt (Named a) (Named a) w) (Named r) = ptrs w (Named r))
    \<and> heap (operator_assign vt (Named a) (Named a) w) = heap w
    \<and> objects (operator_assign vt (Named a) (Named a) w) = objects w
    \<and> trace (operator_assign vt (Named a) (Named a) w) = trace w"
    by (simp add: operator_assign_self)
  have dst: "a \<noteq> b \<Longrightarrow> ptrs (operator_assign vt (Named a) (Named b) w) (Named a) = ptrs w (Named b)"
    by (simp add: operator_assign_other UniquePtr_dtor_ptrs)
  have own: "trace (operator_assign vt (Named a) (Named b) w) =
              trace w @ [Destroy (m_ptr (ptrs w (Named a))),
                         Deallocate (m_allocator (ptrs w (Named a)))
                           (m_allocated_memory (ptrs w (Named a)))]
          \<and> objects (operator_assign vt (Named a) (Named b) w) =
              (objects w)(m_ptr (ptrs w (Named a)) := None)
          \<and> heap (operator_assign vt (Named a) (Named b) w) =
              deallocate (vt (m_allocator (ptrs w (Named a))))
                (m_allocated_memory (ptrs w (Named a))) (heap w)"
    if "a \<noteq> b" "m_ptr (ptrs w (Named a)) \<noteq> nullptr" "m_allocator (ptrs w (Named a)) \<noteq> nullptr"
    using that by (simp add: operator_assign_other UniquePtr_dtor_owning)
  have emp: "trace (operator_assign vt (Named a) (Named b) w) = trace w
          \<and> objects (operator_assign vt (Named a) (Named b) w) = objects w
          \<and> heap (operator_assign vt (Named a) (Named b) w) = heap w"
    if "a \<noteq> b" "m_ptr (ptrs w (Named a)) = nullptr"
    using that by (simp add: operator_assign_other UniquePtr_dtor_empty)
  from self dst own emp show ?thesis by blast
qed

theorem move_assignment_self_and_release_witness:
  "ptrs (operator_assign test_allocators (Named 1) (Named 1) two_pointers) (Named 1)
     = UniquePtr_init 100 4096 4096
   \<and> trace (operator_assign test_allocators (Named 1) (Named 1) two_pointers) = trace two_pointers
   \<and> (1::nat) \<noteq> 2 \<and> m_ptr (ptrs two_pointers (Named 2)) \<noteq> nullptr
   \<and> m_allocator (ptrs two_pointers (Named 2)) \<noteq> nullptr
   \<and> m_ptr (ptrs two_pointers (Named 0)) = nullptr
   \<and> ptrs (operator_assign test_allocators (Named 2) (Named 1) two_pointers) (Named 2)
       = UniquePtr_init 100 4096 4096
   \<and> trace (operator_assign test_allocators (Named 2) (Named 1) two_pointers)
       = trace two_pointers @ [Destroy 8192, Deallocate 100 8192]
   \<and> objects (operator_assign test_allocators (Named 2) (Named 1) two_pointers) = [4096 \<mapsto> 42]
   \<and> allocations (heap (operator_assign test_allocators (Named 2) (Named 1) two_pointers)) = [4096]
   \<and> trace (operator_assign test_allocators (Named 0) (Named 1) two_pointers) = trace two_pointers"
  using move_assignment_self_and_release [of test_allocators 1 two_pointers 1]
    move_assignment_self_and_release [of test_allocators 2 two_pointers 1]
    move_assignment_self_and_release [of test_allocators 0 two_pointers 1]
  by (simp add: two_pointers_eq UniquePtr_init_def UniquePtr_default_def test_allocators_def
      DummyAllocator_def operator_assign_self operator_assign_other UniquePtr_dtor_def
      call_deallocate_def destroy_at_def Let_def fun_eq_iff)

section \<open>Construction, dereference and the container adapter\<close>

lemma construct_n_numeral:
  "construct_n p s (numeral k) v w = construct_n (p + s) s (pred_numeral k) v (construct_at p v w)"
  by (simp add: numeral_eq_Suc)

lemma destroy_numeral:
  "destroy p s (numeral k) w = destroy (p + s) s (pred_numeral k) (destroy_at p w)"
  by (simp add: numeral_eq_Suc)

lemma four_trackers_eq:
  "four_trackers =
     \<lparr>heap = \<lparr>allocations = [4096], served = 1\<rparr>,
      objects = [4096 \<mapsto> (), 4097 \<mapsto> (), 4098 \<mapsto> (), 4099 \<mapsto> ()],
      trace = [Allocate 100 4 1 4096, Construct 4096, Construct 4097, Construct 4098, Construct 4099],
      ptrs = (\<lambda>_. UniquePtrArr_default)(Named 0 := UniquePtrArr_init 100 4096 4096 4)\<rparr>"
  by (simp add: four_trackers_def make_unique_arr_def call_allocate_def construct_at_def
      test_allocators_def DummyAllocator_def initial_def no_allocations_def
      DestructorTracker_def Let_def construct_n_numeral UniquePtrArr_init_def)

text \<open>
  C2: the single-object \<open>make_unique\<close>. With a null allocator the result is an empty
  pointer and nothing at all happens. With an allocator whose
  \<open>allocate(sizeof(T), alignof(T))\<close> returns null the result is an empty pointer and
  no object is constructed (the only event is that call). Otherwise the result is a
  non-empty pointer to the allocated block, at which exactly one object was constructed
  from the supplied arguments. An empty pointer has boolean check false and \<open>get()\<close> null.
\<close>

theorem make_unique_empty_or_one_object:
  fixes w :: "('s, 'h, 'v, 'p) world"
  assumes "make_unique vt T ctor allocator args w = (u, w')"
    and "allocate (vt allocator) (sizeof T) (alignof T) (heap w) = (memory, h')"
  shows "(allocator = nullptr \<longrightarrow>
            \<not> operator_bool u \<and> get u = nullptr \<and> u = UniquePtr_default \<and> w' = w)
    \<and> (allocator \<noteq> nullptr \<and> memory = nullptr \<longrightarrow>
            \<not> operator_bool u \<and> get u = nullptr \<and> u = UniquePtr_default
          \<and> w' = w\<lparr>heap := h',
                   trace := trace w @ [Allocate allocator (sizeof T) (alignof T) nullptr]\<rparr>)
    \<and> (allocator \<noteq> nullptr \<and> memory \<noteq> nullptr \<longrightarrow>
            operator_bool u \<and> get u = memory \<and> u = UniquePtr_init allocator memory memory
          \<and> w' = w\<lparr>heap := h', objects := (objects w)(memory \<mapsto> ctor args),
                   trace := trace w @ [Allocate allocator (sizeof T) (alignof T) memory,
                                       Construct memory]\<rparr>)"
  using assms
  by (auto simp: make_unique_def call_allocate_def construct_at_def Let_def operator_bool_def
      get_def UniquePtr_default_def UniquePtr_init_def split: if_splits)

theorem make_unique_empty_or_one_object_witness:
  "make_unique test_allocators TestClass id nullptr 42 (initial_scalar no_allocations)
     = (UniquePtr_default, initial_scalar no_allocations)
   \<and> make_unique exhausted_allocators TestClass id 100 42 (initial_scalar no_allocations)
     = (UniquePtr_default,
        (initial_scalar no_allocations)\<lparr>trace := [Allocate 100 4 4 nullptr]\<rparr>)
   \<and> allocate (exhausted_allocators 100) (sizeof TestClass) (alignof TestClass) no_allocations
     = (nullptr, no_allocations)
   \<and> make_unique test_allocators TestClass id 100 42 (initial_scalar no_allocations)
     = (UniquePtr_init 100 4096 4096,
        \<lparr>heap = \<lparr>allocations = [4096], served = 1\<rparr>, objects = [4096 \<mapsto> 42],
         trace = [Allocate 100 4 4 4096, Construct 4096], ptrs = (\<lambda>_. UniquePtr_default)\<rparr>)
   \<and> allocate (test_allocators 100) (sizeof TestClass) (alignof TestClass) no_allocations
     = (4096, \<lparr>allocations = [4096], served = 1\<rparr>)
   \<and> operator_bool (UniquePtr_init 100 4096 4096) \<and> \<not> operator_bool UniquePtr_default"
  using make_unique_empty_or_one_object
    [of test_allocators TestClass id nullptr 42 "initial_scalar no_allocations"
        UniquePtr_default "initial_scalar no_allocations" 4096 "\<lparr>allocations = [4096], served = 1\<rparr>"]
    make_unique_empty_or_one_object
    [of exhausted_allocators TestClass id 100 42 "initial_scalar no_allocations"
        UniquePtr_default "(initial_scalar no_allocations)\<lparr>trace := [Allocate 100 4 4 nullptr]\<rparr>"
        nullptr no_allocations]
    make_unique_empty_or_one_object
    [of test_allocators TestClass id 100 42 "initial_scalar no_allocations"
        "UniquePtr_init 100 4096 4096"
        "\<lparr>heap = \<lparr>allocations = [4096], served = 1\<rparr>, objects = [4096 \<mapsto> 42],
         trace = [Allocate 100 4 4 4096, Construct 4096], ptrs = (\<lambda>_. UniquePtr_default)\<rparr>"
        4096 "\<lparr>allocations = [4096], served = 1\<rparr>"]
  by (simp add: make_unique_def call_allocate_def construct_at_def Let_def operator_bool_def
      UniquePtr_default_def UniquePtr_init_def test_allocators_def exhausted_allocators_def
      DummyAllocator_def ExhaustedAllocator_def initial_scalar_def no_allocations_def
      TestClass_def)

text \<open>
  C7: in a debug build \<open>operator->\<close> on an empty single-object pointer returns the null
  pointer and asserts nothing, whereas \<open>operator*\<close> (and \<open>operator[]\<close> of the array
  version) on an empty pointer fail their assertion.
\<close>

theorem operator_arrow_has_no_assertion:
  "operator_arrow Debug UniquePtr_default = Inr nullptr
   \<and> operator_star Debug UniquePtr_default = Inl AssertionFailed
   \<and> operator_index Debug T (UniquePtrArr_default :: 64 word UniquePtrArr) 0 = Inl AssertionFailed"
  by (simp add: operator_arrow_def operator_star_def operator_index_def assert_def
      UniquePtr_default_def UniquePtrArr_default_def)

text \<open>
  C8: two \<open>StlAllocator\<close> instances are equal under \<open>operator==\<close> exactly when they hold
  the same \<open>IAllocator\<close> address, \<open>operator!=\<close> is the negation, and rebinding to
  another element type keeps the allocator address, hence the outcome of the comparison.
\<close>

theorem adapter_equality_is_allocator_identity:
  "operator_eq x y = (get_allocator x = get_allocator y)
   \<and> operator_ne x y = (\<not> operator_eq x y)
   \<and> operator_eq (StlAllocator T a) (StlAllocator T b) = (a = b)
   \<and> get_allocator (StlAllocator_rebind U x) = get_allocator x
   \<and> operator_eq (StlAllocator_rebind U x) (StlAllocator_rebind U y) = operator_eq x y
   \<and> operator_eq (StlAllocator_rebind (value_type y) x) y = operator_eq x y"
  by (simp add: operator_eq_def operator_ne_def StlAllocator_rebind_def)

text \<open>
  C10: \<open>StlAllocator::allocate(n)\<close> with \<open>n > 0\<close> passes \<open>n * sizeof(T)\<close>, computed in
  \<open>size_t\<close>, to the underlying allocator with no check: the requested byte count is the
  product modulo \<open>2 ^ w\<close>, and when the product is \<open>2 ^ w\<close> or more the request is for
  fewer bytes than \<open>n\<close> elements need.
\<close>

theorem adapter_allocate_wraps:
  fixes n :: "'w::len word"
  assumes "n \<noteq> 0" and "get_allocator this \<noteq> nullptr"
  shows "StlAllocator_allocate vt this n w =
           Inr (call_allocate vt (get_allocator this) (n * sizeof (value_type this))
                  (alignof (value_type this)) w)
    \<and> trace (snd (call_allocate vt (get_allocator this) (n * sizeof (value_type this))
                  (alignof (value_type this)) w)) =
        trace w @ [Allocate (get_allocator this) (n * sizeof (value_type this))
                     (alignof (value_type this))
                     (fst (allocate (vt (get_allocator this)) (n * sizeof (value_type this))
                        (alignof (value_type this)) (heap w)))]
    \<and> unat (n * sizeof (value_type this)) =
        (unat n * unat (sizeof (value_type this))) mod 2 ^ LENGTH('w)
    \<and> (2 ^ LENGTH('w) \<le> unat n * unat (sizeof (value_type this)) \<longrightarrow>
          unat (n * sizeof (value_type this)) < unat n * unat (sizeof (value_type this)))"
proof -
  have m: "unat (n * sizeof (value_type this)) =
        (unat n * unat (sizeof (value_type this))) mod 2 ^ LENGTH('w)"
    by (simp add: unat_word_ariths)
  have lt: "unat (n * sizeof (value_type this)) < unat n * unat (sizeof (value_type this))"
    if "2 ^ LENGTH('w) \<le> unat n * unat (sizeof (value_type this))"
  proof -
    have "unat (n * sizeof (value_type this)) < 2 ^ LENGTH('w)"
      by (rule unsigned_less)
    with that show ?thesis by linarith
  qed
  from assms m lt show ?thesis
    by (simp add: StlAllocator_allocate_def call_allocate_def split_beta Let_def)
qed

theorem adapter_allocate_wraps_witness:
  "(4611686018427387905 :: 64 word) \<noteq> 0 \<and> get_allocator (StlAllocator TestClass 100) \<noteq> nullptr
   \<and> (2::nat) ^ LENGTH(64) \<le> unat (4611686018427387905 :: 64 word) * unat (sizeof TestClass)
   \<and> StlAllocator_allocate test_allocators (StlAllocator TestClass 100) 4611686018427387905
        (initial_scalar no_allocations)
      = Inr (4096, \<lparr>heap = \<lparr>allocations = [4096], served = 1\<rparr>, objects = Map.empty,
                    trace = [Allocate 100 4 4 4096], ptrs = (\<lambda>_. UniquePtr_default)\<rparr>)"
  using adapter_allocate_wraps [of "4611686018427387905 :: 64 word" "StlAllocator TestClass 100"
      test_allocators "initial_scalar no_allocations"]
  by (simp add: StlAllocator_allocate_def call_allocate_def test_allocators_def
      DummyAllocator_def initial_scalar_def no_allocations_def TestClass_def Let_def)

section \<open>The array pointer\<close>

lemma destroy_trace:
  "trace (destroy p s n w) = trace w @ map (\<lambda>i. Destroy (p + i * s)) [0..<n]"
proof (induction n arbitrary: p w)
  case 0
  then show ?case by simp
next
  case (Suc n)
  have shift: "map (\<lambda>i. Destroy (p + i * s)) [0..<Suc n] =
        Destroy p # map (\<lambda>i. Destroy (p + s + i * s)) [0..<n]"
    by (simp only: map_upt_Suc) (simp add: add.assoc)
  have "trace (destroy p s (Suc n) w) =
        trace (destroy_at p w) @ map (\<lambda>i. Destroy (p + s + i * s)) [0..<n]"
    using Suc.IH [of "p + s" "destroy_at p w"] by simp
  also have "\<dots> = trace w @ Destroy p # map (\<lambda>i. Destroy (p + s + i * s)) [0..<n]"
    by (simp add: destroy_at_def)
  finally show ?case by (simp only: shift)
qed

lemma destroy_rest:
  "heap (destroy p s n w) = heap w" "ptrs (destroy p s n w) = ptrs w"
  by (induction n arbitrary: p w) (simp_all add: destroy_at_def)

lemma filter_Destroy_map:
  "filter is_Destroy (map (\<lambda>i. Destroy (f i)) xs) = map (\<lambda>i. Destroy (f i)) xs"
  "filter is_Deallocate (map (\<lambda>i. Destroy (f i)) xs) = []"
  by (induction xs) simp_all

text \<open>
  C1: the destructor of an owning array pointer (pointer and allocator non-null) of length
  \<open>N\<close> runs the element destructor on the \<open>N\<close> elements, one after the other in a
  single pass, so exactly \<open>N\<close> times, and then calls \<open>deallocate\<close> of the recorded
  allocator on the one backing allocation, exactly once.
\<close>

theorem array_destructor_destroys_length_elements:
  fixes w :: "('s, 'h, 'v, 'w::len word UniquePtrArr) world"
  assumes "m_ptr (ptrs w this) \<noteq> nullptr" and "m_allocator (ptrs w this) \<noteq> nullptr"
  shows "trace (UniquePtrArr_dtor vt T this w) =
      trace w
      @ map (\<lambda>i. Destroy (m_ptr (ptrs w this) + i * unat (sizeof T)))
          [0..<unat (length_arr (ptrs w this))]
      @ [Deallocate (m_allocator (ptrs w this)) (m_allocated_memory (ptrs w this))]
    \<and> length (filter is_Destroy (drop (length (trace w)) (trace (UniquePtrArr_dtor vt T this w))))
        = unat (length_arr (ptrs w this))
    \<and> length (filter is_Deallocate (drop (length (trace w)) (trace (UniquePtrArr_dtor vt T this w))))
        = 1
    \<and> heap (UniquePtrArr_dtor vt T this w) =
        deallocate (vt (m_allocator (ptrs w this))) (m_allocated_memory (ptrs w this)) (heap w)"
  using assms
  by (simp add: UniquePtrArr_dtor_def Let_def call_deallocate_def destroy_trace destroy_rest
      length_arr_def filter_Destroy_map)

theorem array_destructor_destroys_length_elements_witness:
  "m_ptr (ptrs four_trackers (Named 0)) \<noteq> nullptr
   \<and> m_allocator (ptrs four_trackers (Named 0)) \<noteq> nullptr
   \<and> length_arr (ptrs four_trackers (Named 0)) = 4
   \<and> trace (UniquePtrArr_dtor test_allocators DestructorTracker (Named 0) four_trackers) =
       trace four_trackers
       @ [Destroy 4096, Destroy 4097, Destroy 4098, Destroy 4099, Deallocate 100 4096]
   \<and> allocations (heap (UniquePtrArr_dtor test_allocators DestructorTracker (Named 0) four_trackers))
       = []"
  using array_destructor_destroys_length_elements
    [of four_trackers "Named 0" test_allocators DestructorTracker]
  by (simp add: four_trackers_eq UniquePtrArr_init_def length_arr_def DestructorTracker_def
      test_allocators_def DummyAllocator_def UniquePtrArr_dtor_def Let_def call_deallocate_def
      destroy_numeral destroy_at_def)

text \<open>
  C9: the array \<open>make_unique\<close> with a non-null allocator and length 0 calls
  \<open>allocate(0, alignof(T))\<close> on the allocator, and the returned pointer is non-empty
  exactly when that call returns a non-null address; its length is 0.
  \<open>StlAllocator::allocate(0)\<close> returns null without calling the allocator.
\<close>

theorem make_unique_arr_zero_length_asks_allocator:
  fixes w :: "('w::len word, 'h, 'v, 'p) world"
  assumes "allocator \<noteq> nullptr"
    and "make_unique_arr vt T dflt allocator 0 w = (u, w')"
    and "allocate (vt allocator) 0 (alignof T) (heap w) = (memory, h')"
  shows "w' = w\<lparr>heap := h', trace := trace w @ [Allocate allocator 0 (alignof T) memory]\<rparr>
    \<and> operator_bool u = (memory \<noteq> nullptr)
    \<and> get u = memory \<and> length_arr u = 0
    \<and> StlAllocator_allocate vt sa 0 w = Inr (nullptr, w)"
  using assms
  by (auto simp: make_unique_arr_def call_allocate_def Let_def operator_bool_def get_def
      length_arr_def UniquePtrArr_default_def UniquePtrArr_init_def StlAllocator_allocate_def
      split: if_splits)

theorem make_unique_arr_zero_length_asks_allocator_witness:
  "(100::nat) \<noteq> nullptr
   \<and> make_unique_arr test_allocators TestClass (0::int) 100 0 (initial_scalar no_allocations)
     = (UniquePtrArr_init 100 4096 4096 0,
        \<lparr>heap = \<lparr>allocations = [4096], served = 1\<rparr>, objects = Map.empty,
         trace = [Allocate 100 0 4 4096], ptrs = (\<lambda>_. UniquePtr_default)\<rparr>)
   \<and> allocate (test_allocators 100) 0 (alignof TestClass) no_allocations
     = (4096, \<lparr>allocations = [4096], served = 1\<rparr>)
   \<and> operator_bool (UniquePtrArr_init 100 4096 4096 (0 :: 64 word))
   \<and> make_unique_arr exhausted_allocators TestClass (0::int) 100 0 (initial_scalar no_allocations)
     = (UniquePtrArr_default,
        (initial_scalar no_allocations)\<lparr>trace := [Allocate 100 0 4 nullptr]\<rparr>)
   \<and> allocate (exhausted_allocators 100) 0 (alignof TestClass) no_allocations
     = (nullptr, no_allocations)
   \<and> \<not> operator_bool (UniquePtrArr_default :: 64 word UniquePtrArr)
   \<and> StlAllocator_allocate test_allocators (StlAllocator TestClass 100) 0
        (initial_scalar no_allocations :: (64 word, DummyAllocator_state, int, UniquePtr) world)
     = Inr (nullptr, initial_scalar no_allocations)"
  using make_unique_arr_zero_length_asks_allocator
    [of 100 test_allocators TestClass "0::int" "initial_scalar no_allocations"
        "UniquePtrArr_init 100 4096 4096 0"
        "\<lparr>heap = \<lparr>allocations = [4096], served = 1\<rparr>, objects = Map.empty,
         trace = [Allocate 100 0 4 4096], ptrs = (\<lambda>_. UniquePtr_default)\<rparr>"
        4096 "\<lparr>allocations = [4096], served = 1\<rparr>" "StlAllocator TestClass 100"]
    make_unique_arr_zero_length_asks_allocator
    [of 100 exhausted_allocators TestClass "0::int" "initial_scalar no_allocations"
        UniquePtrArr_default
        "(initial_scalar no_allocations)\<lparr>trace := [Allocate 100 0 4 nullptr]\<rparr>"
        nullptr no_allocations "StlAllocator TestClass 100"]
  by (simp add: make_unique_arr_def call_allocate_def Let_def operator_bool_def
      UniquePtrArr_default_def UniquePtrArr_init_def test_allocators_def exhausted_allocators_def
      DummyAllocator_def ExhaustedAllocator_def initial_scalar_def no_allocations_def
      TestClass_def StlAllocator_allocate_def)

section \<open>What holds of every array pointer a client can reach\<close>

lemma swap_arr_ptrs:
  "ptrs (swap_arr a b w) = (ptrs w)(a := ptrs w b, b := ptrs w a)"
proof (cases "a = b")
  case True
  then show ?thesis by (simp add: swap_arr_def std_swap_def Let_def)
next
  case False
  then show ?thesis by (auto simp: swap_arr_def std_swap_def Let_def fun_eq_iff)
qed

lemma UniquePtrArr_move_ptrs:
  "this \<noteq> other \<Longrightarrow>
   ptrs (UniquePtrArr_move this other w) =
     (ptrs w)(this := ptrs w other, other := UniquePtrArr_default)"
  by (auto simp: UniquePtrArr_move_def Let_def UniquePtrArr_default_def fun_eq_iff)

lemma UniquePtrArr_dtor_ptrs: "ptrs (UniquePtrArr_dtor vt T r w) = ptrs w"
  by (simp add: UniquePtrArr_dtor_def Let_def call_deallocate_def destroy_rest)

lemma operator_assign_arr_ptrs:
  "ptrs (operator_assign_arr vt T (Named a) (Named b) w) =
     (if a = b then (ptrs w)(Temporary := UniquePtrArr_default)
      else (ptrs w)(Named b := UniquePtrArr_default, Named a := ptrs w (Named b),
                    Temporary := ptrs w (Named a)))"
  by (auto simp: operator_assign_arr_def Let_def UniquePtrArr_dtor_ptrs swap_arr_ptrs
      UniquePtrArr_move_ptrs fun_eq_iff)

lemma null_together_default: "null_together UniquePtrArr_default"
  by (simp add: null_together_def UniquePtrArr_default_def)

lemma construct_n_ptrs: "ptrs (construct_n p s n v w) = ptrs w"
  by (induction n arbitrary: p w) (simp_all add: construct_at_def)

lemma make_unique_arr_null_together:
  "make_unique_arr vt T dflt allocator len w = (u, w') \<Longrightarrow> null_together u \<and> ptrs w' = ptrs w"
  by (auto simp: make_unique_arr_def call_allocate_def Let_def null_together_def
      UniquePtrArr_default_def UniquePtrArr_init_def construct_n_ptrs
      split: if_splits prod.splits)

lemma exec_null_together:
  assumes "\<forall>r. null_together (ptrs w r)" and "exec vt T dflt c w = Inr w'"
  shows "\<forall>r. null_together (ptrs w' r)"
proof (cases c)
  case (MakeUnique a allocator len)
  obtain u w1 where m: "make_unique_arr vt T dflt allocator len w = (u, w1)"
    by (cases "make_unique_arr vt T dflt allocator len w")
  with assms MakeUnique make_unique_arr_null_together [OF m] show ?thesis
    by auto
next
  case (MoveCtor a b)
  with assms show ?thesis
    by (auto simp: UniquePtrArr_move_ptrs null_together_default split: if_splits)
next
  case (MoveAssign a b)
  with assms show ?thesis
    by (auto simp: operator_assign_arr_ptrs null_together_default)
qed (use assms in \<open>auto simp: null_together_default UniquePtrArr_nullptr_def swap_arr_ptrs\<close>)

lemma run_null_together:
  "\<forall>r. null_together (ptrs w r) \<Longrightarrow> run vt T dflt cs w = Inr w' \<Longrightarrow>
   \<forall>r. null_together (ptrs w' r)"
proof (induction cs arbitrary: w)
  case Nil
  then show ?case by simp
next
  case (Cons c cs)
  from Cons.prems(2) obtain w1 where e: "exec vt T dflt c w = Inr w1"
    and r: "run vt T dflt cs w1 = Inr w'"
    by (auto split: sum.splits)
  from exec_null_together [OF Cons.prems(1) e] have "\<forall>r. null_together (ptrs w1 r)" .
  from Cons.IH [OF this r] show ?case .
qed

text \<open>
  C4, as stated, fails: with the allocator of the tests,
  \<open>make_unique<DestructorTracker[]>(&allocator, 0)\<close> yields a pointer of length 0 whose
  managed pointer and backing allocation are the non-null address 4096.
\<close>

theorem zero_length_array_is_not_null:
  "run test_allocators DestructorTracker () [MakeUnique 0 100 0] (initial no_allocations)
     = Inr \<lparr>heap = \<lparr>allocations = [4096], served = 1\<rparr>, objects = Map.empty,
            trace = [Allocate 100 0 1 4096],
            ptrs = (\<lambda>_. UniquePtrArr_default)(Named 0 := UniquePtrArr_init 100 4096 4096 0)\<rparr>
   \<and> \<not> ((length_arr (UniquePtrArr_init 100 4096 4096 (0 :: 64 word)) = 0) =
          (get (UniquePtrArr_init 100 4096 4096 (0 :: 64 word)) = nullptr
           \<and> m_allocated_memory (UniquePtrArr_init 100 4096 4096 (0 :: 64 word)) = nullptr))"
  by (simp add: make_unique_arr_def call_allocate_def Let_def test_allocators_def
      DummyAllocator_def initial_def no_allocations_def DestructorTracker_def
      UniquePtrArr_init_def length_arr_def get_def)

text \<open>
  C4, amended: for every array pointer a client reaches by default or \<open>nullptr\<close>
  construction, the array \<open>make_unique\<close> with any length, moves and swaps, the managed
  pointer is null exactly when the backing allocation is null, and a null managed pointer
  has \<open>length() == 0\<close>; after a move construction or move assignment from another
  variable the source is fully null with length 0.
\<close>

theorem array_null_pointer_has_length_zero:
  fixes w :: "('w::len word, 'h, 'v, 'w word UniquePtrArr) world"
  assumes "run vt T dflt cs (initial h) = Inr w"
  shows "(get (ptrs w (Named a)) = nullptr) = (m_allocated_memory (ptrs w (Named a)) = nullptr)
    \<and> (get (ptrs w (Named a)) = nullptr \<longrightarrow> length_arr (ptrs w (Named a)) = 0)
    \<and> (b \<noteq> c \<longrightarrow>
          ptrs (UniquePtrArr_move (Named b) (Named c) w) (Named b) = ptrs w (Named c)
        \<and> ptrs (UniquePtrArr_move (Named b) (Named c) w) (Named c) = UniquePtrArr_default
        \<and> ptrs (operator_assign_arr vt T (Named b) (Named c) w) (Named c) = UniquePtrArr_default
        \<and> length_arr (UniquePtrArr_default :: 'w word UniquePtrArr) = 0
        \<and> get (UniquePtrArr_default :: 'w word UniquePtrArr) = nullptr
        \<and> m_allocated_memory (UniquePtrArr_default :: 'w word UniquePtrArr) = nullptr)"
proof -
  have "\<forall>r. null_together (ptrs (initial h :: ('w word, 'h, 'v, 'w word UniquePtrArr) world) r)"
    by (simp add: initial_def null_together_default)
  from run_null_together [OF this assms] have "null_together (ptrs w (Named a))" by blast
  then show ?thesis
    by (simp add: null_together_def get_def length_arr_def UniquePtrArr_move_ptrs
        operator_assign_arr_ptrs UniquePtrArr_default_def)
qed

theorem array_null_pointer_has_length_zero_witness:
  "run test_allocators DestructorTracker ()
      [MakeUnique 0 100 4, MoveCtor 1 0, MakeUnique 2 100 0, Swap 2 1, MoveAssign 0 1]
      (initial no_allocations)
     = Inr \<lparr>heap = \<lparr>allocations = [4096, 8192], served = 2\<rparr>,
            objects = [4096 \<mapsto> (), 4097 \<mapsto> (), 4098 \<mapsto> (), 4099 \<mapsto> ()],
            trace = [Allocate 100 4 1 4096, Construct 4096, Construct 4097, Construct 4098,
                     Construct 4099, Allocate 100 0 1 8192],
            ptrs = (\<lambda>_. UniquePtrArr_default)
              (Named 2 := UniquePtrArr_init 100 4096 4096 4,
               Named 0 := UniquePtrArr_init 100 8192 8192 0)\<rparr>
   \<and> get (UniquePtrArr_default :: 64 word UniquePtrArr) = nullptr
   \<and> length_arr (UniquePtrArr_default :: 64 word UniquePtrArr) = 0
   \<and> (0::nat) \<noteq> 2"
  using array_null_pointer_has_length_zero
    [of test_allocators DestructorTracker "()"
        "[MakeUnique 0 100 4, MoveCtor 1 0, MakeUnique 2 100 0, Swap 2 1, MoveAssign 0 1]"
        no_allocations
        "\<lparr>heap = \<lparr>allocations = [4096, 8192], served = 2\<rparr>,
            objects = [4096 \<mapsto> (), 4097 \<mapsto> (), 4098 \<mapsto> (), 4099 \<mapsto> ()],
            trace = [Allocate 100 4 1 4096, Construct 4096, Construct 4097, Construct 4098,
                     Construct 4099, Allocate 100 0 1 8192],
            ptrs = (\<lambda>_. UniquePtrArr_default)
              (Named 2 := UniquePtrArr_init 100 4096 4096 4,
               Named 0 := UniquePtrArr_init 100 8192 8192 0)\<rparr>" 1 0 2]
  by (simp add: make_unique_arr_def call_allocate_def Let_def test_allocators_def
      DummyAllocator_def initial_def no_allocations_def DestructorTracker_def
      UniquePtrArr_init_def UniquePtrArr_default_def length_arr_def get_def
      construct_n_numeral construct_at_def UniquePtrArr_move_def swap_arr_def std_swap_def
      operator_assign_arr_def UniquePtrArr_dtor_def fun_eq_iff)

end
